theory Spec2Isabelle
  imports Complex_Main
begin

section \<open>The host's header collections\<close>

text \<open>
  Modelled from the spec: the header collection of the host
  (\<^verbatim>\<open>tornado.httputil.HTTPHeaders\<close>, behind \<^verbatim>\<open>self.request.headers\<close> and behind
  \<^verbatim>\<open>set_header\<close>) is not part of the repository. The spec requires of the host
  "a readable inbound-header collection keyed case-insensitively" and
  "a settable/overwritable outbound-header mechanism". A collection is a map
  from case-folded names to values; names are folded on every access.
\<close>

definition lower_char :: "char \<Rightarrow> char" where
  "lower_char c =
     (case map_of (zip ''ABCDEFGHIJKLMNOPQRSTUVWXYZ'' ''abcdefghijklmnopqrstuvwxyz'') c of
        None \<Rightarrow> c
      | Some l \<Rightarrow> l)"

definition fold_case :: "string \<Rightarrow> string" where
  "fold_case name = map lower_char name"

type_synonym headers = "string \<rightharpoonup> string"

definition headers_get :: "headers \<Rightarrow> string \<Rightarrow> string option \<Rightarrow> string option" where
  \<comment> \<open>\<^verbatim>\<open>headers.get(name, default)\<close>; Python's \<^verbatim>\<open>None\<close> is \<open>None\<close>\<close>
  "headers_get hs name dflt =
     (case hs (fold_case name) of None \<Rightarrow> dflt | Some v \<Rightarrow> Some v)"

definition headers_set :: "headers \<Rightarrow> string \<Rightarrow> string \<Rightarrow> headers" where
  \<comment> \<open>\<^verbatim>\<open>headers[name] = value\<close>: overwrites\<close>
  "headers_set hs name v = hs(fold_case name \<mapsto> v)"

section \<open>The handler object\<close>

text \<open>
  One record holds what the mix-ins and the host keep on \<^verbatim>\<open>self\<close>. The two
  private attributes of \<^verbatim>\<open>HandlerMixin\<close> (\<^verbatim>\<open>__header_name\<close>, \<^verbatim>\<open>__correlation_id\<close>)
  are the fields \<open>hm_header_name\<close> and \<open>hm_correlation_id\<close>. The identifier is a
  \<^verbatim>\<open>str\<close>: it is \<^verbatim>\<open>str(uuid.uuid4())\<close> or a header value.
\<close>

record handler =
  hm_header_name :: string
  hm_correlation_id :: string
  request_headers :: headers
  out_headers :: headers
  finished :: bool
  status_code :: int
  logger_correlation_id :: "string option"

text \<open>
  The rest of the method resolution order, which the mix-in reaches through
  \<^verbatim>\<open>super()\<close>: the hooks of the classes behind \<^verbatim>\<open>HandlerMixin\<close> and the
  baseline response headers that the host's \<^verbatim>\<open>clear()\<close> restores. The hooks are
  arbitrary functions on the handler; a coroutine is run to its end.
\<close>

record host =
  base_headers :: headers
  super_set_default_headers :: "handler \<Rightarrow> handler"
  super_prepare :: "handler \<Rightarrow> handler"

text \<open>
  Modelled from the spec: \<^verbatim>\<open>set_header\<close> belongs to the host
  (\<^verbatim>\<open>tornado.web.RequestHandler\<close>), "a settable/overwritable outbound-header
  mechanism"; the docstring of \<^verbatim>\<open>HandlerMixin\<close> asks the same of it: it "needs to
  exist in the MRO and it needs to overwrite the header value".
\<close>

definition set_header :: "handler \<Rightarrow> string \<Rightarrow> string \<Rightarrow> handler" where
  "set_header h name v = h\<lparr>out_headers := headers_set (out_headers h) name v\<rparr>"

subsection \<open>HandlerMixin\<close>

definition correlation_id :: "handler \<Rightarrow> string" where
  \<comment> \<open>the property getter\<close>
  "correlation_id h = hm_correlation_id h"

definition correlation_id_setter :: "handler \<Rightarrow> string \<Rightarrow> handler" where
  "correlation_id_setter h v =
     (let h1 = h\<lparr>hm_correlation_id := v\<rparr>
      in set_header h1 (hm_header_name h1) (hm_correlation_id h1))"

definition get_request_header :: "handler \<Rightarrow> string \<Rightarrow> string option \<Rightarrow> string option" where
  "get_request_header h name dflt = headers_get (request_headers h) name dflt"

definition set_default_headers :: "host \<Rightarrow> handler \<Rightarrow> handler" where
  "set_default_headers mro h =
     (let h1 = super_set_default_headers mro h
      in set_header h1 (hm_header_name h1) (correlation_id h1))"

definition prepare :: "host \<Rightarrow> handler \<Rightarrow> handler" where
  \<comment> \<open>the coroutine runs to its end: the upstream hook first, then the header is read\<close>
  "prepare mro h =
     (let h1 = super_prepare mro h
      in case get_request_header h1 (hm_header_name h1) None of
           None \<Rightarrow> h1
         | Some v \<Rightarrow> correlation_id_setter h1 v)"

text \<open>
  Modelled from the spec: \<^verbatim>\<open>clear()\<close> belongs to the host; it is the
  "default-headers-establishment hook invoked on init and on error-reset": the
  response goes back to the host's baseline and \<^verbatim>\<open>set_default_headers\<close> is called.
  The source relies on the same: \<^verbatim>\<open>set_default_headers\<close> "is called from within
  super().__init__()" and "AFTER calling clear() when an error occurs".
\<close>

definition clear :: "host \<Rightarrow> handler \<Rightarrow> handler" where
  "clear mro h = set_default_headers mro (h\<lparr>out_headers := base_headers mro, status_code := 200\<rparr>)"

definition init :: "host \<Rightarrow> string option \<Rightarrow> string \<Rightarrow> headers \<Rightarrow> handler" where
  \<comment> \<open>\<^verbatim>\<open>__init__\<close>: \<open>kw\<close> is the keyword \<^verbatim>\<open>correlation_header\<close>, \<open>fresh\<close> the text of the
      UUID drawn; the host's constructor then calls \<^verbatim>\<open>clear()\<close>\<close>
  "init mro kw fresh req =
     clear mro
       \<lparr>hm_header_name = (case kw of None \<Rightarrow> ''Correlation-ID'' | Some n \<Rightarrow> n),
        hm_correlation_id = fresh,
        request_headers = req,
        out_headers = Map.empty,
        finished = False,
        status_code = 200,
        logger_correlation_id = None\<rparr>"


text \<open>
  Modelled from the spec: the host's error path, "when the host resets response
  state after an application error (e.g., producing an HTTP error response), the
  default-headers hook must run again". The error response is then sent with
  the given status.
\<close>

definition send_error :: "host \<Rightarrow> handler \<Rightarrow> int \<Rightarrow> handler" where
  "send_error mro h sc = (clear mro h)\<lparr>status_code := sc, finished := True\<rparr>"

text \<open>
  What can happen to a handler between its construction and the moment its
  response is sent: the pre-processing hook, a write to the \<^verbatim>\<open>correlation_id\<close>
  property, a call of the default-headers hook, an error reset.
\<close>

datatype event = Prepare | SetIdentifier string | DefaultHeaders | ErrorReset int

fun step :: "host \<Rightarrow> handler \<Rightarrow> event \<Rightarrow> handler" where
  "step mro h Prepare = prepare mro h"
| "step mro h (SetIdentifier v) = correlation_id_setter h v"
| "step mro h DefaultHeaders = set_default_headers mro h"
| "step mro h (ErrorReset sc) = send_error mro h sc"

definition run :: "host \<Rightarrow> handler \<Rightarrow> event list \<Rightarrow> handler" where
  "run mro h evs = foldl (step mro) h evs"

definition header_synced :: "handler \<Rightarrow> bool" where
  \<comment> \<open>the outbound header is present and carries the current identifier\<close>
  "header_synced h =
     (headers_get (out_headers h) (hm_header_name h) None = Some (correlation_id h))"

text \<open>
  \<^verbatim>\<open>tornado.web.RequestHandler\<close> as \<^verbatim>\<open>tests.py\<close> composes it behind the mix-in: its own
  \<^verbatim>\<open>set_default_headers\<close> and \<^verbatim>\<open>prepare\<close> do nothing. The handler of \<^verbatim>\<open>tests.py\<close>
  raises \<^verbatim>\<open>HTTPError(status_code)\<close> from \<^verbatim>\<open>get\<close> when the status is 300 or more and
  writes a body otherwise (the body is not part of the model).
\<close>

definition web_RequestHandler :: host where
  "web_RequestHandler =
     \<lparr>base_headers =
        headers_set (headers_set Map.empty ''Server'' ''TornadoServer'')
          ''Content-Type'' ''text/html; charset=UTF-8'',
      super_set_default_headers = (\<lambda>h. h),
      super_prepare = (\<lambda>h. h)\<rparr>"

definition get_events :: "int \<Rightarrow> event list" where
  "get_events sc = (if sc \<ge> 300 then [ErrorReset sc] else [])"

definition fetch :: "host \<Rightarrow> string option \<Rightarrow> string \<Rightarrow> headers \<Rightarrow> int \<Rightarrow> handler" where
  \<comment> \<open>one request against the handler of \<^verbatim>\<open>tests.py\<close>, up to the moment the response is sent\<close>
  "fetch mro kw fresh req sc = run mro (init mro kw fresh req) (Prepare # get_events sc)"

subsection \<open>LoggingMixin\<close>

definition initialize :: "handler \<Rightarrow> handler" where
  \<comment> \<open>a new \<^verbatim>\<open>CorrelationAdapter\<close>, whose identifier starts as \<^verbatim>\<open>None\<close>\<close>
  "initialize h = h\<lparr>logger_correlation_id := None\<rparr>"

definition logging_prepare :: "host \<Rightarrow> handler \<Rightarrow> handler" where
  "logging_prepare mro h =
     (let h1 = prepare mro h
      in if \<not> finished h1 then h1\<lparr>logger_correlation_id := Some (correlation_id h1)\<rparr>
         else h1)"

section \<open>CorrelationAdapter\<close>

text \<open>
  The adapter holds its identifier (\<^verbatim>\<open>None\<close> or a \<^verbatim>\<open>str\<close>) and the \<^verbatim>\<open>extra\<close> of
  the standard library's \<^verbatim>\<open>LoggerAdapter\<close>. Keyword arguments are a dictionary from
  names to values of any type \<open>'v\<close>. The two methods of the base class that the
  adapter goes through, \<^verbatim>\<open>LoggerAdapter.process\<close> and \<^verbatim>\<open>LoggerAdapter.log\<close>, are the
  standard library's: the first stores \<^verbatim>\<open>extra\<close> in the keyword arguments and
  returns the message as it is, the second calls \<^verbatim>\<open>process\<close> and hands message,
  positional arguments and keyword arguments to the wrapped logger (whether
  the level is enabled is the wrapped logger's business and is not modelled).
  A positional argument is a \<^verbatim>\<open>str\<close> or an \<^verbatim>\<open>int\<close>.
\<close>

datatype pyvalue = PStr string | PInt int

record 'v adapter =
  adapter_correlation_id :: "string option"
  extra :: 'v

type_synonym 'v kwargs = "string \<rightharpoonup> 'v"

definition adapter_init :: "'v \<Rightarrow> 'v adapter" where
  "adapter_init ex = \<lparr>adapter_correlation_id = None, extra = ex\<rparr>"

definition LoggerAdapter_process :: "'v adapter \<Rightarrow> string \<Rightarrow> 'v kwargs \<Rightarrow> string \<times> 'v kwargs" where
  \<comment> \<open>standard library: \<^verbatim>\<open>kwargs["extra"] = self.extra; return msg, kwargs\<close>\<close>
  "LoggerAdapter_process a msg kw = (msg, kw(''extra'' \<mapsto> extra a))"

definition process :: "'v adapter \<Rightarrow> string \<Rightarrow> 'v kwargs \<Rightarrow> string \<times> 'v kwargs" where
  \<comment> \<open>\<^verbatim>\<open>if self.correlation_id:\<close> holds for a \<^verbatim>\<open>str\<close> that is not empty\<close>
  "process a msg kw =
     (let msg1 = (case adapter_correlation_id a of
                    None \<Rightarrow> msg
                  | Some c \<Rightarrow> if c = [] then msg else msg @ '' {CID '' @ c @ ''}'')
      in LoggerAdapter_process a msg1 kw)"

datatype level = INFO | WARNING | ERROR

record 'v log_call =
  call_level :: level
  call_msg :: string
  call_args :: "pyvalue list"
  call_kwargs :: "'v kwargs"

definition log :: "'v adapter \<Rightarrow> level \<Rightarrow> string \<Rightarrow> pyvalue list \<Rightarrow> 'v kwargs \<Rightarrow> 'v log_call" where
  \<comment> \<open>standard library, \<^verbatim>\<open>LoggerAdapter.log\<close>: the call made on the wrapped logger\<close>
  "log a lvl msg args kw =
     (let (msg1, kw1) = process a msg kw
      in \<lparr>call_level = lvl, call_msg = msg1, call_args = args, call_kwargs = kw1\<rparr>)"

section \<open>Numbers as Python prints them\<close>

text \<open>
  The source multiplies a \<^verbatim>\<open>float\<close> by \<^verbatim>\<open>1000.0\<close> and prints with \<^verbatim>\<open>%d\<close>, \<^verbatim>\<open>%s\<close> and
  \<^verbatim>\<open>%.2f\<close>. A finite \<^verbatim>\<open>float\<close> is the rational number it denotes. \<open>to_double\<close>
  rounds a rational to the nearest double, ties to the even mantissa (53 bits),
  which is what a floating-point multiplication does to the exact product;
  overflow and subnormal numbers are outside the range of a request time and
  are not modelled. \<^verbatim>\<open>%.2f\<close> rounds the exact value of the double to the nearest
  hundredth, ties to even.
\<close>

definition pow2 :: "int \<Rightarrow> rat" where
  "pow2 e = (if e \<ge> 0 then 2 ^ nat e else 1 / 2 ^ nat (- e))"

fun bit_length :: "nat \<Rightarrow> nat" where
  "bit_length n = (if n = 0 then 0 else Suc (bit_length (n div 2)))"

declare bit_length.simps [simp del]

definition ilog2 :: "rat \<Rightarrow> int" where
  \<comment> \<open>for \<open>q > 0\<close>, the \<open>k\<close> with \<open>2 ^ k \<le> q < 2 ^ (k + 1)\<close>\<close>
  "ilog2 q =
     (let (n, d) = quotient_of q;
          k = int (bit_length (nat n)) - int (bit_length (nat d))
      in if pow2 k \<le> q then k else k - 1)"

definition round_half_even :: "rat \<Rightarrow> int" where
  "round_half_even q =
     (let f = \<lfloor>q\<rfloor>; r = q - of_int f
      in if r < 1 / 2 then f else if 1 / 2 < r then f + 1 else if even f then f else f + 1)"

definition to_double :: "rat \<Rightarrow> rat" where
  "to_double q =
     (if q = 0 then 0
      else let e = ilog2 \<bar>q\<bar> - 52
           in sgn q * of_int (round_half_even (\<bar>q\<bar> / pow2 e)) * pow2 e)"

definition float_mul :: "rat \<Rightarrow> rat \<Rightarrow> rat" where
  "float_mul a b = to_double (a * b)"

definition digit_char :: "nat \<Rightarrow> char" where
  "digit_char d = ''0123456789'' ! (d mod 10)"

fun show_nat :: "nat \<Rightarrow> string" where
  "show_nat n = (if n < 10 then [digit_char n] else show_nat (n div 10) @ [digit_char (n mod 10)])"

declare show_nat.simps [simp del]

definition format_d :: "int \<Rightarrow> string" where
  \<comment> \<open>\<^verbatim>\<open>'%d' % i\<close>\<close>
  "format_d i = (if i < 0 then ''-'' @ show_nat (nat (- i)) else show_nat (nat i))"

definition format_2f :: "rat \<Rightarrow> string" where
  \<comment> \<open>\<^verbatim>\<open>'%.2f' % x\<close>: the nearest number with two decimals, ties to even\<close>
  "format_2f x =
     (let c = nat (round_half_even (\<bar>x\<bar> * 100))
      in (if x < 0 then ''-'' else []) @ show_nat (c div 100) @ ''.'' @
         [digit_char (c div 10 mod 10), digit_char (c mod 10)])"

definition format_s :: "string option \<Rightarrow> string" where
  \<comment> \<open>\<^verbatim>\<open>'%s' % v\<close> for \<^verbatim>\<open>None\<close> or a \<^verbatim>\<open>str\<close>\<close>
  "format_s v = (case v of None \<Rightarrow> ''None'' | Some s \<Rightarrow> s)"

section \<open>What the wrapped logger writes\<close>

text \<open>
  The standard library turns the call on the wrapped logger into a line with
  \<^verbatim>\<open>LogRecord.getMessage\<close>: the message as it is when there are no positional
  arguments, and \<^verbatim>\<open>msg % args\<close> when there are. The operator \<^verbatim>\<open>%\<close> is modelled
  for the conversions \<^verbatim>\<open>%s\<close>, \<^verbatim>\<open>%d\<close> and \<^verbatim>\<open>%%\<close>, with the errors Python raises
  and in the order it raises them: the template is read from the left; a lone
  \<^verbatim>\<open>%\<close> at the end is a \<^verbatim>\<open>ValueError\<close>; a conversion with no argument left is a
  \<^verbatim>\<open>TypeError\<close>, also when its letter is not a conversion at all; a letter that
  is not a conversion is a \<^verbatim>\<open>ValueError\<close> when an argument is left; \<^verbatim>\<open>%d\<close> of
  a \<^verbatim>\<open>str\<close> is a \<^verbatim>\<open>TypeError\<close>; arguments left over at the end are a
  \<^verbatim>\<open>TypeError\<close>. A template that uses the rest of the conversion syntax (a
  mapping key, flags, width, precision, the other conversion types) is
  \<open>OutsideModel\<close>. An exception raised while the record is formatted is
  caught by the logging handler, and the line is not written.
\<close>

datatype format_error = TypeError | ValueError | OutsideModel

definition py_str :: "pyvalue \<Rightarrow> string" where
  \<comment> \<open>\<^verbatim>\<open>str(v)\<close>\<close>
  "py_str v = (case v of PStr s \<Rightarrow> s | PInt i \<Rightarrow> format_d i)"

definition put :: "string \<Rightarrow> format_error + string \<Rightarrow> format_error + string" where
  \<comment> \<open>the text written so far, in front of what the rest of the template gives\<close>
  "put p r = (case r of Inl e \<Rightarrow> Inl e | Inr s \<Rightarrow> Inr (p @ s))"

definition syntax_chars :: string where
  \<comment> \<open>what opens a mapping key, a flag, a width, a precision or a length modifier\<close>
  "syntax_chars = ''(#0- +123456789*.hlL''"

definition other_types :: string where
  \<comment> \<open>the conversion types of Python that are left out\<close>
  "other_types = ''iouxXeEfFgGcra''"

fun percent_format :: "string \<Rightarrow> pyvalue list \<Rightarrow> format_error + string" where
  "percent_format [] args = (if args = [] then Inr [] else Inl TypeError)"
| "percent_format [c] args =
     (if c = CHR ''%'' then Inl ValueError else put [c] (percent_format [] args))"
| "percent_format (c # d # rest) args =
     (if c \<noteq> CHR ''%'' then put [c] (percent_format (d # rest) args)
      else if d = CHR ''%'' then put ''%'' (percent_format rest args)
      else if d \<in> set syntax_chars then Inl OutsideModel
      else case args of
             [] \<Rightarrow> Inl TypeError
           | a # as \<Rightarrow>
               if d = CHR ''s'' then put (py_str a) (percent_format rest as)
               else if d = CHR ''d'' then
                 (case a of
                    PInt i \<Rightarrow> put (format_d i) (percent_format rest as)
                  | PStr _ \<Rightarrow> Inl TypeError)
               else if d \<in> set other_types then Inl OutsideModel
               else Inl ValueError)"

declare percent_format.simps [simp del]

definition getMessage :: "'v log_call \<Rightarrow> format_error + string" where
  \<comment> \<open>\<^verbatim>\<open>msg = str(self.msg); if self.args: msg = msg % self.args\<close>\<close>
  "getMessage call =
     (if call_args call = [] then Inr (call_msg call)
      else percent_format (call_msg call) (call_args call))"

section \<open>The access log\<close>

text \<open>
  What \<^verbatim>\<open>correlation_id_logger\<close> reads from the handler it is given. The handler may
  or may not have the mix-in: \<open>mixin\<close> is \<open>None\<close> for a handler without the
  attribute \<^verbatim>\<open>correlation_id\<close>, and otherwise holds the configured header name and
  the value of the attribute, which Python allows to be \<^verbatim>\<open>None\<close>.
\<close>

record provider =
  provider_header_name :: string
  provider_correlation_id :: "string option"

record logged_handler =
  get_status :: int
  request_summary :: string
  request_time :: rat
  logged_request_headers :: headers
  mixin :: "provider option"

definition getattr_correlation_id :: "logged_handler \<Rightarrow> string option" where
  \<comment> \<open>\<^verbatim>\<open>getattr(handler, "correlation_id", None)\<close>\<close>
  "getattr_correlation_id handler =
     (case mixin handler of None \<Rightarrow> None | Some p \<Rightarrow> provider_correlation_id p)"

definition logged_correlation_id :: "logged_handler \<Rightarrow> string option" where
  \<comment> \<open>the identifier that is logged: the attribute, or the header when the attribute is \<^verbatim>\<open>None\<close>\<close>
  "logged_correlation_id handler =
     (let cid = getattr_correlation_id handler
      in if cid = None then headers_get (logged_request_headers handler) ''Correlation-ID'' None
         else cid)"

definition access_log_message :: "int \<Rightarrow> string \<Rightarrow> rat \<Rightarrow> string option \<Rightarrow> string" where
  \<comment> \<open>\<^verbatim>\<open>"%d %s %.2fms {CID %s}" % (status, summary, ms, cid)\<close>\<close>
  "access_log_message status summary ms cid =
     format_d status @ '' '' @ summary @ '' '' @ format_2f ms @ ''ms {CID '' @ format_s cid @ ''}''"

definition correlation_id_logger :: "logged_handler \<Rightarrow> level \<times> string" where
  \<comment> \<open>the method of \<^verbatim>\<open>access_log\<close> that is called, and the message it logs\<close>
  "correlation_id_logger handler =
     (let log_method =
            (if get_status handler < 400 then INFO
             else if get_status handler < 500 then WARNING
             else ERROR);
          ms = float_mul 1000 (request_time handler);
          cid = logged_correlation_id handler
      in (log_method,
          access_log_message (get_status handler) (request_summary handler) ms cid))"

section \<open>Hosts and requests used as examples\<close>

definition short_circuit :: "int \<Rightarrow> host" where
  \<comment> \<open>a class further up whose \<^verbatim>\<open>prepare\<close> ends the request with an error response\<close>
  "short_circuit sc =
     web_RequestHandler\<lparr>super_prepare := (\<lambda>h. send_error web_RequestHandler h sc)\<rparr>"

definition empty_header_handler :: handler where
  \<comment> \<open>a new handler for a request that carries \<^verbatim>\<open>Correlation-ID:\<close> with an empty value\<close>
  "empty_header_handler =
     init web_RequestHandler None ''9f1c2d3e-4b5a-4c6d-8e7f-0a1b2c3d4e5f''
       (headers_set Map.empty ''Correlation-ID'' [])"

definition example_request :: logged_handler where
  \<comment> \<open>status 200, 0.012345 s as a double (12.345 ms once multiplied), identifier \<^verbatim>\<open>abc\<close>\<close>
  "example_request =
     \<lparr>get_status = 200,
      request_summary = ''GET /x HTTP/1.1'',
      request_time = 7116407987185763 / 576460752303423488,
      logged_request_headers = Map.empty,
      mixin = Some \<lparr>provider_header_name = ''Correlation-ID'',
                    provider_correlation_id = Some ''abc''\<rparr>\<rparr>"

text \<open>
  Reading a printed number back, to say what a string of decimal digits denotes.
\<close>

definition is_digit :: "char \<Rightarrow> bool" where
  "is_digit c = (c \<in> set ''0123456789'')"

definition digit_of :: "char \<Rightarrow> nat" where
  "digit_of c = (case map_of (zip ''0123456789'' [0 ..< 10]) c of None \<Rightarrow> 0 | Some d \<Rightarrow> d)"

definition digits_value :: "string \<Rightarrow> nat" where
  "digits_value ds = foldl (\<lambda>acc c. 10 * acc + digit_of c) 0 ds"

section \<open>Properties of the header collections\<close>

lemma headers_get_set_same:
  "fold_case n = fold_case n' \<Longrightarrow> headers_get (headers_set hs n' v) n d = Some v"
  by (simp add: headers_get_def headers_set_def)

lemma headers_get_set_other:
  "fold_case n \<noteq> fold_case n' \<Longrightarrow> headers_get (headers_set hs n' v) n d = headers_get hs n d"
  by (simp add: headers_get_def headers_set_def)

lemma headers_set_twice:
  "headers_set (headers_set hs n v) n v = headers_set hs n v"
  by (simp add: headers_set_def)

section \<open>The outbound header follows the identifier\<close>

lemma set_header_fields [simp]:
  "hm_header_name (set_header h n v) = hm_header_name h"
  "hm_correlation_id (set_header h n v) = hm_correlation_id h"
  "request_headers (set_header h n v) = request_headers h"
  "finished (set_header h n v) = finished h"
  "status_code (set_header h n v) = status_code h"
  "logger_correlation_id (set_header h n v) = logger_correlation_id h"
  "out_headers (set_header h n v) = headers_set (out_headers h) n v"
  by (simp_all add: set_header_def)

lemma synced_setter: "header_synced (correlation_id_setter h v)"
  by (simp add: header_synced_def correlation_id_setter_def correlation_id_def
      headers_get_set_same Let_def)

lemma setter_value: "correlation_id (correlation_id_setter h v) = v"
  by (simp add: correlation_id_setter_def correlation_id_def Let_def)

lemma synced_set_default_headers: "header_synced (set_default_headers mro h)"
  by (simp add: header_synced_def set_default_headers_def correlation_id_def
      headers_get_set_same Let_def)

lemma set_default_headers_value:
  "correlation_id (set_default_headers mro h) = correlation_id (super_set_default_headers mro h)"
  by (simp add: set_default_headers_def correlation_id_def Let_def)

lemma synced_clear: "header_synced (clear mro h)"
  by (simp add: clear_def synced_set_default_headers)

lemma synced_init: "header_synced (init mro kw fresh req)"
  by (simp add: init_def synced_clear)

lemma synced_send_error: "header_synced (send_error mro h sc)"
  using synced_clear [of mro h]
  by (simp add: send_error_def header_synced_def correlation_id_def)

lemma synced_prepare:
  assumes "header_synced (super_prepare mro h)"
  shows "header_synced (prepare mro h)"
  using assms by (simp add: prepare_def Let_def synced_setter split: option.split)

lemma synced_step:
  assumes up: "\<And>h. header_synced h \<Longrightarrow> header_synced (super_prepare mro h)"
    and h: "header_synced h"
  shows "header_synced (step mro h ev)"
  by (cases ev)
    (simp_all add: synced_prepare up h synced_setter synced_set_default_headers synced_send_error)

lemma synced_run:
  assumes up: "\<And>h. header_synced h \<Longrightarrow> header_synced (super_prepare mro h)"
    and h: "header_synced h"
  shows "header_synced (run mro h evs)"
  using h unfolding run_def
proof (induction evs arbitrary: h)
  case Nil
  then show ?case by simp
next
  case (Cons ev evs)
  have "header_synced (step mro h ev)"
    using up Cons.prems by (rule synced_step)
  then show ?case
    using Cons.IH by simp
qed

lemma web_RequestHandler_simps [simp]:
  "super_prepare web_RequestHandler h = h"
  "super_set_default_headers web_RequestHandler h = h"
  by (simp_all add: web_RequestHandler_def)

section \<open>Claims about the provider\<close>

text \<open>
  C1. Every invocation of the default-headers hook and every write of the
  \<^verbatim>\<open>correlation_id\<close> property leaves the configured outbound header present and
  equal to the current identifier. Hence, from construction on and through any
  sequence of pre-processing, identifier writes, default-headers calls and error
  resets, the header carries the identifier at the moment the response is sent,
  on the success path and on the error path of one handler alike. The classes
  further up the resolution order are only asked not to break this in their own
  \<^verbatim>\<open>prepare\<close>.
\<close>
theorem outbound_header_follows_identifier:
  assumes up: "\<And>h. header_synced h \<Longrightarrow> header_synced (super_prepare mro h)"
  shows "header_synced (set_default_headers mro h)
     \<and> header_synced (correlation_id_setter h v)
     \<and> correlation_id (correlation_id_setter h v) = v
     \<and> header_synced (run mro (init mro kw fresh req) evs)
     \<and> header_synced (fetch mro kw fresh req sc)"
proof -
  have "header_synced (run mro (init mro kw fresh req) evs)" for evs
    using up synced_init by (rule synced_run)
  then show ?thesis
    by (simp add: synced_set_default_headers synced_setter setter_value fetch_def)
qed

text \<open>
  C1, at the host of \<^verbatim>\<open>tests.py\<close>: status 200 and status 500, with no inbound header.
\<close>
theorem outbound_header_follows_identifier_witness:
  "header_synced (fetch web_RequestHandler None ''9f1c2d3e-4b5a-4c6d-8e7f-0a1b2c3d4e5f'' Map.empty 200)
   \<and> header_synced (fetch web_RequestHandler None ''9f1c2d3e-4b5a-4c6d-8e7f-0a1b2c3d4e5f'' Map.empty 500)
   \<and> status_code (fetch web_RequestHandler None ''9f1c2d3e-4b5a-4c6d-8e7f-0a1b2c3d4e5f'' Map.empty 500) = 500
   \<and> headers_get (out_headers
        (fetch web_RequestHandler None ''9f1c2d3e-4b5a-4c6d-8e7f-0a1b2c3d4e5f'' Map.empty 500))
        ''Correlation-ID'' None = Some ''9f1c2d3e-4b5a-4c6d-8e7f-0a1b2c3d4e5f''"
proof -
  have up: "\<And>h. header_synced h \<Longrightarrow> header_synced (super_prepare web_RequestHandler h)"
    by simp
  have a: "header_synced (fetch web_RequestHandler None ''9f1c2d3e-4b5a-4c6d-8e7f-0a1b2c3d4e5f'' Map.empty 200)"
    using outbound_header_follows_identifier [OF up] by blast
  have b: "header_synced (fetch web_RequestHandler None ''9f1c2d3e-4b5a-4c6d-8e7f-0a1b2c3d4e5f'' Map.empty 500)"
    using outbound_header_follows_identifier [OF up] by blast
  have c: "status_code (fetch web_RequestHandler None ''9f1c2d3e-4b5a-4c6d-8e7f-0a1b2c3d4e5f'' Map.empty 500) = 500"
    by (simp add: fetch_def run_def get_events_def send_error_def)
  have d: "hm_header_name (fetch web_RequestHandler None ''9f1c2d3e-4b5a-4c6d-8e7f-0a1b2c3d4e5f'' Map.empty 500) = ''Correlation-ID''"
    by (simp add: fetch_def run_def get_events_def send_error_def clear_def set_default_headers_def
        prepare_def init_def get_request_header_def headers_get_def Let_def)
  have e: "correlation_id (fetch web_RequestHandler None ''9f1c2d3e-4b5a-4c6d-8e7f-0a1b2c3d4e5f'' Map.empty 500) = ''9f1c2d3e-4b5a-4c6d-8e7f-0a1b2c3d4e5f''"
    by (simp add: fetch_def run_def get_events_def send_error_def clear_def set_default_headers_def
        prepare_def init_def get_request_header_def headers_get_def correlation_id_def Let_def)
  show ?thesis
    using a b c b [unfolded header_synced_def d e] by simp
qed


lemma set_default_headers_fields:
  "hm_header_name (set_default_headers mro h) = hm_header_name (super_set_default_headers mro h)"
  "hm_correlation_id (set_default_headers mro h) = hm_correlation_id (super_set_default_headers mro h)"
  by (simp_all add: set_default_headers_def Let_def)

lemma set_default_headers_header:
  "headers_get (out_headers (set_default_headers mro h))
     (hm_header_name (super_set_default_headers mro h)) None
   = Some (hm_correlation_id (super_set_default_headers mro h))"
  by (simp add: set_default_headers_def Let_def correlation_id_def headers_get_set_same)

lemma set_default_headers_noop_twice:
  assumes "super_set_default_headers mro = (\<lambda>h. h)"
  shows "set_default_headers mro (set_default_headers mro h) = set_default_headers mro h"
  by (simp add: set_default_headers_def assms Let_def set_header_def correlation_id_def
      headers_set_twice)

lemma iterate_fields:
  assumes "\<And>h. hm_header_name (super_set_default_headers mro h) = hm_header_name h"
    and "\<And>h. hm_correlation_id (super_set_default_headers mro h) = hm_correlation_id h"
  shows "hm_header_name ((set_default_headers mro ^^ n) h) = hm_header_name h
       \<and> hm_correlation_id ((set_default_headers mro ^^ n) h) = hm_correlation_id h"
  by (induction n) (simp_all add: set_default_headers_fields assms)

text \<open>
  C7. Calling the default-headers hook once more, any number of times, with no
  write of the identifier in between, leaves the value of the outbound
  correlation header as one call leaves it: the current identifier. The hooks
  further up are asked to leave the mix-in's two private attributes alone; when
  they do nothing at all, one call and several calls give the same handler state.
\<close>
theorem default_headers_idempotent:
  assumes name: "\<And>h. hm_header_name (super_set_default_headers mro h) = hm_header_name h"
    and ident: "\<And>h. hm_correlation_id (super_set_default_headers mro h) = hm_correlation_id h"
  shows "headers_get (out_headers ((set_default_headers mro ^^ Suc n) h)) (hm_header_name h) None
       = headers_get (out_headers (set_default_headers mro h)) (hm_header_name h) None
     \<and> headers_get (out_headers (set_default_headers mro h)) (hm_header_name h) None
       = Some (correlation_id h)
     \<and> (super_set_default_headers mro = (\<lambda>h. h) \<longrightarrow>
          (set_default_headers mro ^^ Suc n) h = set_default_headers mro h)"
proof -
  have one: "headers_get (out_headers (set_default_headers mro g)) (hm_header_name g) None
      = Some (hm_correlation_id g)" for g
    using set_default_headers_header [of mro g] by (simp add: name ident)
  have it: "hm_header_name ((set_default_headers mro ^^ n) h) = hm_header_name h"
    "hm_correlation_id ((set_default_headers mro ^^ n) h) = hm_correlation_id h"
    using iterate_fields [of mro n h] name ident by simp_all
  have many: "headers_get (out_headers ((set_default_headers mro ^^ Suc n) h)) (hm_header_name h) None
      = Some (hm_correlation_id h)"
    using one [of "(set_default_headers mro ^^ n) h"] by (simp add: it)
  have noop: "(set_default_headers mro ^^ Suc n) h = set_default_headers mro h"
    if "super_set_default_headers mro = (\<lambda>h. h)"
    by (induction n) (simp_all add: set_default_headers_noop_twice [OF that])
  show ?thesis
    using one [of h] many noop by (simp add: correlation_id_def)
qed

text \<open>
  C7, at the host of \<^verbatim>\<open>tests.py\<close>: three calls against one.
\<close>
theorem default_headers_idempotent_witness:
  "(\<forall>h. hm_header_name (super_set_default_headers web_RequestHandler h) = hm_header_name h)
   \<and> (\<forall>h. hm_correlation_id (super_set_default_headers web_RequestHandler h) = hm_correlation_id h)
   \<and> super_set_default_headers web_RequestHandler = (\<lambda>h. h)
   \<and> (set_default_headers web_RequestHandler ^^ Suc 2) empty_header_handler
       = set_default_headers web_RequestHandler empty_header_handler
   \<and> headers_get (out_headers ((set_default_headers web_RequestHandler ^^ Suc 2) empty_header_handler))
       (hm_header_name empty_header_handler) None
     = Some (correlation_id empty_header_handler)"
proof -
  have n: "\<And>h. hm_header_name (super_set_default_headers web_RequestHandler h) = hm_header_name h"
    and i: "\<And>h. hm_correlation_id (super_set_default_headers web_RequestHandler h) = hm_correlation_id h"
    and e: "super_set_default_headers web_RequestHandler = (\<lambda>h. h)"
    by (simp_all add: fun_eq_iff)
  show ?thesis
    using default_headers_idempotent [OF n i, of 2 empty_header_handler] n i e by simp
qed

text \<open>
  C2, as stated, fails for an inbound header that is present with an empty
  value: \<^verbatim>\<open>prepare\<close> tests \<^verbatim>\<open>is not None\<close>, so the empty value replaces the generated
  identifier.
\<close>
theorem prepare_keeps_default_on_empty_header_counterexample:
  "get_request_header empty_header_handler (hm_header_name empty_header_handler) None = Some []
   \<and> correlation_id empty_header_handler = ''9f1c2d3e-4b5a-4c6d-8e7f-0a1b2c3d4e5f''
   \<and> correlation_id (prepare web_RequestHandler empty_header_handler) = []
   \<and> correlation_id (prepare web_RequestHandler empty_header_handler)
       \<noteq> correlation_id empty_header_handler"
  by (simp add: empty_header_handler_def init_def clear_def set_default_headers_def prepare_def
      correlation_id_setter_def correlation_id_def get_request_header_def headers_get_def
      headers_set_def Let_def)

text \<open>
  C2, amended. The pre-processing hook adopts the value \<open>v\<close> of the inbound
  correlation header as the identifier if and only if the header is present,
  an empty value included, and the outbound header then equals \<open>v\<close> verbatim;
  when the header is absent the handler is left as the upstream hook left it,
  so a new handler keeps its generated identifier.
\<close>
theorem prepare_adopts_inbound_header:
  "(get_request_header (super_prepare mro h) (hm_header_name (super_prepare mro h)) None = Some v
      \<longrightarrow> correlation_id (prepare mro h) = v
        \<and> headers_get (out_headers (prepare mro h)) (hm_header_name (prepare mro h)) None = Some v)
   \<and> (get_request_header (super_prepare mro h) (hm_header_name (super_prepare mro h)) None = None
      \<longrightarrow> prepare mro h = super_prepare mro h)
   \<and> correlation_id (prepare web_RequestHandler (init web_RequestHandler None fresh req))
       = (case headers_get req ''Correlation-ID'' None of None \<Rightarrow> fresh | Some v \<Rightarrow> v)"
proof -
  have a: "correlation_id (prepare mro h) = v
      \<and> headers_get (out_headers (prepare mro h)) (hm_header_name (prepare mro h)) None = Some v"
    if "get_request_header (super_prepare mro h) (hm_header_name (super_prepare mro h)) None = Some v"
    using that synced_setter [of "super_prepare mro h" v]
    by (simp add: prepare_def Let_def setter_value header_synced_def)
  have b: "prepare mro h = super_prepare mro h"
    if "get_request_header (super_prepare mro h) (hm_header_name (super_prepare mro h)) None = None"
    using that by (simp add: prepare_def Let_def)
  have c: "correlation_id (prepare web_RequestHandler (init web_RequestHandler None fresh req))
       = (case headers_get req ''Correlation-ID'' None of None \<Rightarrow> fresh | Some v \<Rightarrow> v)"
    by (simp add: init_def clear_def set_default_headers_def prepare_def correlation_id_setter_def
        correlation_id_def get_request_header_def Let_def split: option.split)
  show ?thesis using a b c by blast
qed

text \<open>
  C2, amended, at a request with an empty header and at a request without one.
\<close>
theorem prepare_adopts_inbound_header_witness:
  "get_request_header (super_prepare web_RequestHandler empty_header_handler)
      (hm_header_name (super_prepare web_RequestHandler empty_header_handler)) None = Some []
   \<and> headers_get (out_headers (prepare web_RequestHandler empty_header_handler))
        (hm_header_name (prepare web_RequestHandler empty_header_handler)) None = Some []
   \<and> get_request_header
        (super_prepare web_RequestHandler (init web_RequestHandler None ''9f1c2d3e'' Map.empty))
        (hm_header_name
          (super_prepare web_RequestHandler (init web_RequestHandler None ''9f1c2d3e'' Map.empty)))
        None = None
   \<and> prepare web_RequestHandler (init web_RequestHandler None ''9f1c2d3e'' Map.empty)
       = init web_RequestHandler None ''9f1c2d3e'' Map.empty"
proof -
  have p: "get_request_header (super_prepare web_RequestHandler empty_header_handler)
      (hm_header_name (super_prepare web_RequestHandler empty_header_handler)) None = Some []"
    by (simp add: empty_header_handler_def init_def clear_def set_default_headers_def
        get_request_header_def headers_get_def headers_set_def Let_def)
  have q: "get_request_header
        (super_prepare web_RequestHandler (init web_RequestHandler None ''9f1c2d3e'' Map.empty))
        (hm_header_name
          (super_prepare web_RequestHandler (init web_RequestHandler None ''9f1c2d3e'' Map.empty)))
        None = None"
    by (simp add: init_def clear_def set_default_headers_def
        get_request_header_def headers_get_def Let_def)
  show ?thesis
    using prepare_adopts_inbound_header [of web_RequestHandler empty_header_handler "[]"]
      prepare_adopts_inbound_header
        [of web_RequestHandler "init web_RequestHandler None ''9f1c2d3e'' Map.empty"]
      p q by simp
qed


text \<open>
  C9. \<^verbatim>\<open>get_request_header\<close> hands the name and the default to the host's
  collection unchanged, so it reads case-insensitively: two names that differ
  only in letter case read the same, a name that differs only in case from a
  header that is set returns that header's value, and an absent header gives
  the default. A request with \<^verbatim>\<open>Correlation-Id: deadbeef\<close> answered with status 500
  carries \<^verbatim>\<open>deadbeef\<close> in its outbound header, read as \<^verbatim>\<open>correlation-id\<close>.
\<close>
theorem get_request_header_case_insensitive:
  "(fold_case name = fold_case name' \<longrightarrow>
      get_request_header h name dflt = get_request_header h name' dflt)
   \<and> (fold_case name = fold_case name' \<longrightarrow>
      get_request_header (h\<lparr>request_headers := headers_set hs name' v\<rparr>) name dflt = Some v)
   \<and> (request_headers h (fold_case name) = None \<longrightarrow> get_request_header h name dflt = dflt)
   \<and> headers_get
        (out_headers (fetch web_RequestHandler None fresh
           (headers_set Map.empty ''Correlation-Id'' ''deadbeef'') 500))
        ''correlation-id'' None = Some ''deadbeef''"
proof -
  have "headers_get
        (out_headers (fetch web_RequestHandler None fresh
           (headers_set Map.empty ''Correlation-Id'' ''deadbeef'') 500))
        ''correlation-id'' None = Some ''deadbeef''"
    by (simp add: fetch_def run_def get_events_def send_error_def clear_def
        set_default_headers_def prepare_def init_def correlation_id_setter_def correlation_id_def
        get_request_header_def headers_get_def headers_set_def fold_case_def lower_char_def
        Let_def)
  then show ?thesis
    by (simp add: get_request_header_def headers_get_def headers_set_def)
qed

text \<open>
  C9, at the names \<^verbatim>\<open>CORRELATION-id\<close> and \<^verbatim>\<open>Correlation-Id\<close>.
\<close>
theorem get_request_header_case_insensitive_witness:
  "fold_case ''CORRELATION-id'' = fold_case ''Correlation-Id''
   \<and> get_request_header
        ((init web_RequestHandler None ''9f1c2d3e'' Map.empty)
           \<lparr>request_headers := headers_set Map.empty ''Correlation-Id'' ''deadbeef''\<rparr>)
        ''CORRELATION-id'' None = Some ''deadbeef''
   \<and> request_headers (init web_RequestHandler None ''9f1c2d3e'' Map.empty)
        (fold_case ''CORRELATION-id'') = None
   \<and> get_request_header (init web_RequestHandler None ''9f1c2d3e'' Map.empty)
        ''CORRELATION-id'' (Some ''fallback'') = Some ''fallback''"
proof -
  have f: "fold_case ''CORRELATION-id'' = fold_case ''Correlation-Id''"
    by (simp add: fold_case_def lower_char_def)
  have n: "request_headers (init web_RequestHandler None ''9f1c2d3e'' Map.empty)
        (fold_case ''CORRELATION-id'') = None"
    by (simp add: init_def clear_def set_default_headers_def Let_def)
  have w1: "get_request_header
        ((init web_RequestHandler None ''9f1c2d3e'' Map.empty)
           \<lparr>request_headers := headers_set Map.empty ''Correlation-Id'' ''deadbeef''\<rparr>)
        ''CORRELATION-id'' None = Some ''deadbeef''"
    using get_request_header_case_insensitive
        [of "''CORRELATION-id''" "''Correlation-Id''"
            "init web_RequestHandler None ''9f1c2d3e'' Map.empty" None Map.empty "''deadbeef''"]
      f by blast
  have w2: "get_request_header (init web_RequestHandler None ''9f1c2d3e'' Map.empty)
        ''CORRELATION-id'' (Some ''fallback'') = Some ''fallback''"
    using get_request_header_case_insensitive
        [of "''CORRELATION-id''" "''Correlation-Id''"
            "init web_RequestHandler None ''9f1c2d3e'' Map.empty" "Some ''fallback''"]
      n by blast
  show ?thesis
    using f n w1 w2 by blast
qed

lemma prepare_logger_field:
  "logger_correlation_id (prepare mro h) = logger_correlation_id (super_prepare mro h)"
  by (simp add: prepare_def correlation_id_setter_def Let_def split: option.split)

section \<open>Claims about the correlated logger\<close>

text \<open>
  C8. After the pre-processing hook of the provider, the logger's identifier is
  set to the provider's current identifier when the response is not finished;
  when it is finished the logger keeps the value it had (the hook of the
  provider does not touch it). The provider's identifier is not changed by the
  synchronization.
\<close>
theorem logging_prepare_synchronizes:
  "(\<not> finished (prepare mro h) \<longrightarrow>
      logger_correlation_id (logging_prepare mro h) = Some (correlation_id (logging_prepare mro h)))
   \<and> (finished (prepare mro h) \<longrightarrow>
      logger_correlation_id (logging_prepare mro h) = logger_correlation_id (super_prepare mro h))
   \<and> correlation_id (logging_prepare mro h) = correlation_id (prepare mro h)"
  by (simp add: logging_prepare_def Let_def correlation_id_def prepare_logger_field)

text \<open>
  C8, at the host of \<^verbatim>\<open>tests.py\<close> and at a host whose \<^verbatim>\<open>prepare\<close> ends the request
  with status 403.
\<close>
theorem logging_prepare_synchronizes_witness:
  "\<not> finished (prepare web_RequestHandler (initialize empty_header_handler))
   \<and> logger_correlation_id (logging_prepare web_RequestHandler (initialize empty_header_handler))
       = Some []
   \<and> finished (prepare (short_circuit 403) (initialize empty_header_handler))
   \<and> logger_correlation_id (logging_prepare (short_circuit 403) (initialize empty_header_handler))
       = None
   \<and> correlation_id (logging_prepare (short_circuit 403) (initialize empty_header_handler)) = []"
proof -
  have a: "\<not> finished (prepare web_RequestHandler (initialize empty_header_handler))"
    by (simp add: empty_header_handler_def initialize_def init_def clear_def
        set_default_headers_def prepare_def correlation_id_setter_def
        get_request_header_def headers_get_def headers_set_def Let_def)
  have b: "correlation_id (prepare web_RequestHandler (initialize empty_header_handler)) = []"
    by (simp add: empty_header_handler_def initialize_def init_def clear_def
        set_default_headers_def prepare_def correlation_id_setter_def correlation_id_def
        get_request_header_def headers_get_def headers_set_def Let_def)
  have c: "finished (prepare (short_circuit 403) (initialize empty_header_handler))"
    by (simp add: short_circuit_def send_error_def empty_header_handler_def initialize_def
        init_def clear_def set_default_headers_def prepare_def correlation_id_setter_def
        get_request_header_def headers_get_def headers_set_def Let_def)
  have d: "logger_correlation_id (super_prepare (short_circuit 403) (initialize empty_header_handler))
      = None"
    by (simp add: short_circuit_def send_error_def empty_header_handler_def initialize_def
        init_def clear_def set_default_headers_def Let_def)
  have e: "correlation_id (prepare (short_circuit 403) (initialize empty_header_handler)) = []"
    by (simp add: short_circuit_def send_error_def empty_header_handler_def initialize_def
        init_def clear_def set_default_headers_def prepare_def correlation_id_setter_def
        correlation_id_def get_request_header_def headers_get_def headers_set_def Let_def)
  show ?thesis
    using logging_prepare_synchronizes [of web_RequestHandler "initialize empty_header_handler"]
      logging_prepare_synchronizes [of "short_circuit 403" "initialize empty_header_handler"]
      a b c d e by simp
qed

subsection \<open>The message that is logged\<close>

lemma process_suffix:
  "(adapter_correlation_id a = Some c \<and> c \<noteq> [] \<longrightarrow>
      fst (process a m kw) = m @ '' {CID '' @ c @ ''}'' \<and> fst (process a m kw) \<noteq> m)
   \<and> (adapter_correlation_id a = None \<or> adapter_correlation_id a = Some [] \<longrightarrow>
      fst (process a m kw) = m)
   \<and> call_msg (log a lvl m args kw) = fst (process a m kw)
   \<and> call_args (log a lvl m args kw) = args
   \<and> call_level (log a lvl m args kw) = lvl"
  by (auto simp add: process_def LoggerAdapter_process_def log_def Let_def split: option.split)

lemma put_Inr [simp]: "put p (Inr s) = Inr (p @ s)"
  by (simp add: put_def)

lemma put_Inl [simp]: "put p (Inl e) = Inl e"
  by (simp add: put_def)

lemma put_eq_Inr: "put p r = Inr s \<Longrightarrow> \<exists>t. r = Inr t \<and> s = p @ t"
  by (cases r) simp_all

lemma percent_format_char:
  "c \<noteq> CHR ''%'' \<Longrightarrow> percent_format (c # rest) args = put [c] (percent_format rest args)"
  by (cases rest) (simp_all add: percent_format.simps)

lemma percent_format_percent:
  "percent_format (CHR ''%'' # CHR ''%'' # rest) args = put ''%'' (percent_format rest args)"
  by (simp add: percent_format.simps)

lemma percent_format_s:
  "percent_format (CHR ''%'' # CHR ''s'' # rest) (a # as) = put (py_str a) (percent_format rest as)"
  by (simp add: percent_format.simps syntax_chars_def)

lemma percent_format_no_argument:
  "d \<noteq> CHR ''%'' \<Longrightarrow> d \<notin> set syntax_chars \<Longrightarrow>
   percent_format (CHR ''%'' # d # rest) [] = Inl TypeError"
  by (simp add: percent_format.simps)

lemma percent_format_plain:
  "CHR ''%'' \<notin> set sfx \<Longrightarrow>
   percent_format sfx args = (if args = [] then Inr sfx else Inl TypeError)"
proof (induction sfx)
  case Nil
  show ?case by (simp add: percent_format.simps)
next
  case (Cons c sfx)
  then have "c \<noteq> CHR ''%''" by auto
  then show ?case using Cons by (simp add: percent_format_char)
qed

lemma percent_format_plain_suffix:
  "CHR ''%'' \<notin> set sfx \<Longrightarrow> percent_format m args = Inr s \<Longrightarrow>
   percent_format (m @ sfx) args = Inr (s @ sfx)"
proof (induction m args arbitrary: s rule: percent_format.induct)
  case (1 args)
  then show ?case
    by (simp add: percent_format_plain percent_format.simps split: if_splits)
next
  case (2 c args)
  from \<open>percent_format [c] args = Inr s\<close>
  have c: "c \<noteq> CHR ''%''" and a: "args = []" and s: "s = [c]"
    by (auto simp add: percent_format.simps split: if_splits)
  show ?case
    using \<open>CHR ''%'' \<notin> set sfx\<close> by (simp add: c a s percent_format_char percent_format_plain)
next
  case (3 c d rest args)
  note sfx = \<open>CHR ''%'' \<notin> set sfx\<close>
  note eq = \<open>percent_format (c # d # rest) args = Inr s\<close>
  show ?case
  proof (cases "c = CHR ''%''")
    case False
    then obtain t where t: "percent_format (d # rest) args = Inr t" "s = [c] @ t"
      using eq put_eq_Inr [of "[c]" "percent_format (d # rest) args" s]
      by (auto simp add: percent_format_char)
    have "percent_format ((d # rest) @ sfx) args = Inr (t @ sfx)"
      using False sfx t(1) by (rule "3.IH"(1))
    then show ?thesis using False t by (simp add: percent_format_char)
  next
    case True
    note c = True
    show ?thesis
    proof (cases "d = CHR ''%''")
      case True
      then obtain t where t: "percent_format rest args = Inr t" "s = ''%'' @ t"
        using eq c put_eq_Inr [of "''%''" "percent_format rest args" s]
        by (auto simp add: percent_format_percent)
      have "\<not> c \<noteq> CHR ''%''" using c by simp
      then have "percent_format (rest @ sfx) args = Inr (t @ sfx)"
        using True sfx t(1) by (rule "3.IH"(2))
      then show ?thesis using c True t by (simp add: percent_format_percent)
    next
      case False
      note d = False
      have nc: "\<not> c \<noteq> CHR ''%''" using c by simp
      have ns: "d \<notin> set syntax_chars"
        using eq c d by (auto simp add: percent_format.simps split: if_splits)
      obtain a as where args: "args = a # as"
        using eq c d ns by (cases args) (auto simp add: percent_format.simps)
      show ?thesis
      proof (cases "d = CHR ''s''")
        case True
        then obtain t where t: "percent_format rest as = Inr t" "s = py_str a @ t"
          using eq c args put_eq_Inr [of "py_str a" "percent_format rest as" s]
          by (auto simp add: percent_format_s)
        have "percent_format (rest @ sfx) as = Inr (t @ sfx)"
          using nc d ns args True sfx t(1) by (rule "3.IH"(3))
        then show ?thesis using c True args t by (simp add: percent_format_s)
      next
        case False
        note nots = False
        have dd: "d = CHR ''d''"
          using eq c d ns args nots
          by (auto simp add: percent_format.simps split: if_splits pyvalue.splits)
        obtain i where a: "a = PInt i"
          using eq c d ns args nots dd
          by (cases a) (auto simp add: percent_format.simps)
        obtain t where t: "percent_format rest as = Inr t" "s = format_d i @ t"
          using eq c d ns args nots dd a put_eq_Inr [of "format_d i" "percent_format rest as" s]
          by (auto simp add: percent_format.simps)
        have "percent_format (rest @ sfx) as = Inr (t @ sfx)"
          using nc d ns args nots dd a sfx t(1) by (rule "3.IH"(4))
        then show ?thesis
          using c d ns args nots dd a t by (simp add: percent_format.simps)
      qed
    qed
  qed
qed

text \<open>
  Where the adapter does what its documentation says. Without positional
  arguments the line is the message with the suffix, whatever the identifier
  holds; with positional arguments it is the formatted message with the suffix,
  as long as the identifier has no per cent sign in it; with no identifier it
  is what the wrapped logger alone would write.
\<close>

lemma getMessage_log_no_args:
  "getMessage (log a lvl m [] kw) = Inr (fst (process a m kw))"
  by (simp add: getMessage_def log_def split: prod.split)

lemma getMessage_log_plain_identifier:
  assumes "adapter_correlation_id a = Some c" "c \<noteq> []" "CHR ''%'' \<notin> set c"
    and "args \<noteq> []" "percent_format m args = Inr s"
  shows "getMessage (log a lvl m args kw) = Inr (s @ '' {CID '' @ c @ ''}'')"
proof -
  have "CHR ''%'' \<notin> set ('' {CID '' @ c @ ''}'')"
    using assms(3) by simp
  then have "percent_format (m @ '' {CID '' @ c @ ''}'') args = Inr (s @ '' {CID '' @ c @ ''}'')"
    using assms(5) by (rule percent_format_plain_suffix)
  then show ?thesis
    using assms(1,2,4)
    by (simp add: getMessage_def log_def process_def LoggerAdapter_process_def)
qed

lemma getMessage_log_no_identifier:
  assumes "adapter_correlation_id a = None \<or> adapter_correlation_id a = Some []"
  shows "getMessage (log a lvl m args kw)
       = (if args = [] then Inr m else percent_format m args)"
  using assms
  by (auto simp add: getMessage_def log_def process_def LoggerAdapter_process_def)

text \<open>
  C3 says that, for every message and every state of the identifier, logging
  the message writes it with \<^verbatim>\<open> {CID <identifier>}\<close> appended when the identifier
  is set and not empty, and that only the template is touched. The code appends
  the identifier to the template before the positional arguments are
  substituted, so an identifier with a per cent sign in it is read as part of
  the template. With the identifier \<^verbatim>\<open>%s\<close>, logging \<^verbatim>\<open>hello %s\<close> with the argument
  \<^verbatim>\<open>x\<close> raises \<^verbatim>\<open>TypeError\<close> while the record is formatted and no line is written;
  with the identifier \<^verbatim>\<open>%%\<close> the line is \<^verbatim>\<open>hello x {CID %}\<close>, which does not carry
  the identifier. Without the identifier the same call writes \<^verbatim>\<open>hello x\<close>, so
  the claim asks for \<^verbatim>\<open>hello x {CID %s}\<close> and \<^verbatim>\<open>hello x {CID %%}\<close>.
\<close>

theorem percent_in_identifier_breaks_logging:
  "getMessage (log ((adapter_init (Map.empty :: string \<rightharpoonup> string))
       \<lparr>adapter_correlation_id := Some ''%s''\<rparr>) INFO ''hello %s'' [PStr ''x''] Map.empty)
     = Inl TypeError
   \<and> getMessage (log ((adapter_init (Map.empty :: string \<rightharpoonup> string))
       \<lparr>adapter_correlation_id := Some ''%%''\<rparr>) INFO ''hello %s'' [PStr ''x''] Map.empty)
     = Inr ''hello x {CID %}''
   \<and> getMessage (log (adapter_init (Map.empty :: string \<rightharpoonup> string))
       INFO ''hello %s'' [PStr ''x''] Map.empty)
     = Inr ''hello x''"
  by (simp add: getMessage_def log_def process_def LoggerAdapter_process_def adapter_init_def
      percent_format_char percent_format_percent percent_format_s percent_format_no_argument
      percent_format.simps(1) py_str_def syntax_chars_def)

section \<open>Properties of the number formats\<close>

lemma pow2_powi: "pow2 e = 2 powi e"
  by (simp add: pow2_def power_int_def field_simps)

lemma pow2_pos [simp]: "0 < pow2 e"
  by (simp add: pow2_powi)

lemma pow2_add: "pow2 (a + b) = pow2 a * pow2 b"
  by (simp add: pow2_powi power_int_add)

lemma pow2_less: "a < b \<Longrightarrow> pow2 a < pow2 b"
  by (simp add: pow2_powi power_int_strict_increasing)

lemma pow2_le: "a \<le> b \<Longrightarrow> pow2 a \<le> pow2 b"
  by (simp add: pow2_powi power_int_increasing)

lemma pow2_nat: "pow2 (int n) = 2 ^ n"
  by (simp add: pow2_def)

lemma bit_length_bounds:
  "0 < n \<Longrightarrow> 2 ^ (bit_length n - 1) \<le> n \<and> n < 2 ^ bit_length n"
proof (induction n rule: bit_length.induct)
  case (1 n)
  show ?case
  proof (cases "n div 2 = 0")
    case True
    with 1 have "n = 1" by auto
    then show ?thesis by (simp add: bit_length.simps)
  next
    case False
    then have pos: "0 < n div 2" by simp
    have ih: "2 ^ (bit_length (n div 2) - 1) \<le> n div 2 \<and> n div 2 < 2 ^ bit_length (n div 2)"
      using 1 pos by simp
    have bl: "bit_length n = Suc (bit_length (n div 2))"
      using 1 by (subst bit_length.simps) simp
    have blp: "0 < bit_length (n div 2)"
      using pos by (subst bit_length.simps) simp
    then obtain m where m: "bit_length (n div 2) = Suc m"
      by (cases "bit_length (n div 2)") auto
    from ih m have a: "2 ^ m \<le> n div 2" and b: "n div 2 < 2 * 2 ^ m" by simp_all
    have c: "2 * (n div 2) \<le> n" and e: "n < 2 * (n div 2) + 2" by presburger+
    have "2 * 2 ^ m \<le> n" using a c by linarith
    moreover have "n < 2 * (2 * 2 ^ m)" using b e by linarith
    ultimately have "2 * 2 ^ m \<le> n \<and> n < 2 * (2 * 2 ^ m)" by blast
    then show ?thesis using bl m by simp
  qed
qed


lemma ilog2_bounds:
  assumes "0 < q"
  shows "pow2 (ilog2 q) \<le> q \<and> q < pow2 (ilog2 q + 1)"
proof -
  obtain n d where nd: "quotient_of q = (n, d)" by (cases "quotient_of q")
  have d: "0 < d" using nd quotient_of_denom_pos by blast
  have q: "q = of_int n / of_int d" using nd quotient_of_div by blast
  have n: "0 < n" using assms d q by (simp add: zero_less_divide_iff)
  define bn where "bn = bit_length (nat n)"
  define bd where "bd = bit_length (nat d)"
  have n_b: "2 ^ (bn - 1) \<le> nat n" "nat n < 2 ^ bn"
    using bit_length_bounds [of "nat n"] n by (simp_all add: bn_def)
  have d_b: "2 ^ (bd - 1) \<le> nat d" "nat d < 2 ^ bd"
    using bit_length_bounds [of "nat d"] d by (simp_all add: bd_def)
  have bn_pos: "0 < bn" using n unfolding bn_def by (subst bit_length.simps) simp
  have bd_pos: "0 < bd" using d unfolding bd_def by (subst bit_length.simps) simp
  define k where "k = int bn - int bd"
  have nr: "(2::rat) ^ (bn - 1) \<le> of_int n" "of_int n < (2::rat) ^ bn"
  proof -
    have "(of_nat (2 ^ (bn - 1)) :: rat) \<le> of_nat (nat n)"
      using n_b(1) by (simp only: of_nat_le_iff)
    then show "(2::rat) ^ (bn - 1) \<le> of_int n" using n by simp
    have "(of_nat (nat n) :: rat) < of_nat (2 ^ bn)"
      using n_b(2) by (simp only: of_nat_less_iff)
    then show "of_int n < (2::rat) ^ bn" using n by simp
  qed
  have dr: "(2::rat) ^ (bd - 1) \<le> of_int d" "of_int d < (2::rat) ^ bd"
  proof -
    have "(of_nat (2 ^ (bd - 1)) :: rat) \<le> of_nat (nat d)"
      using d_b(1) by (simp only: of_nat_le_iff)
    then show "(2::rat) ^ (bd - 1) \<le> of_int d" using d by simp
    have "(of_nat (nat d) :: rat) < of_nat (2 ^ bd)"
      using d_b(2) by (simp only: of_nat_less_iff)
    then show "of_int d < (2::rat) ^ bd" using d by simp
  qed
  have k1: "pow2 (k + 1) = 2 ^ bn / 2 ^ (bd - 1)"
  proof -
    have "k + 1 = int bn - int (bd - 1)" using bd_pos by (simp add: k_def)
    then show ?thesis
      by (simp add: pow2_powi power_int_diff)
  qed
  have k2: "pow2 (k - 1) = 2 ^ (bn - 1) / 2 ^ bd"
  proof -
    have "k - 1 = int (bn - 1) - int bd" using bn_pos by (simp add: k_def)
    then show ?thesis
      by (simp add: pow2_powi power_int_diff)
  qed
  have up: "q < pow2 (k + 1)"
    unfolding k1 q using n d nr dr by (intro frac_less) simp_all
  have lo: "pow2 (k - 1) \<le> q"
    unfolding k2 q using n d nr dr by (intro frac_le) simp_all
  have il: "ilog2 q = (if pow2 k \<le> q then k else k - 1)"
    by (simp add: ilog2_def nd k_def bn_def bd_def Let_def)
  show ?thesis using up lo il by auto
qed


lemma ilog2_unique:
  assumes "0 < q" "pow2 k \<le> q" "q < pow2 (k + 1)"
  shows "ilog2 q = k"
proof (rule ccontr)
  assume ne: "ilog2 q \<noteq> k"
  have b: "pow2 (ilog2 q) \<le> q" "q < pow2 (ilog2 q + 1)"
    using ilog2_bounds [OF assms(1)] by simp_all
  show False
  proof (cases "ilog2 q < k")
    case True
    then have "pow2 (ilog2 q + 1) \<le> pow2 k" by (intro pow2_le) simp
    then show False using b(2) assms(2) by simp
  next
    case False
    with ne have "k + 1 \<le> ilog2 q" by simp
    then have "pow2 (k + 1) \<le> pow2 (ilog2 q)" by (rule pow2_le)
    then show False using b(1) assms(3) by simp
  qed
qed

lemma to_double_pos:
  assumes "0 < q" "pow2 (e + 52) \<le> q" "q < pow2 (e + 53)"
  shows "to_double q = of_int (round_half_even (q / pow2 e)) * pow2 e"
proof -
  have "ilog2 q = e + 52"
    using assms by (intro ilog2_unique) (simp_all add: add.assoc)
  then show ?thesis using assms(1) by (simp add: to_double_def Let_def)
qed


lemma round_half_even_frac:
  assumes "0 < b"
  shows "round_half_even (of_int a / of_int b) =
     (if 2 * (a mod b) < b then a div b
      else if b < 2 * (a mod b) then a div b + 1
      else if even (a div b) then a div b else a div b + 1)"
proof -
  have fl: "\<lfloor>(of_int a / of_int b :: rat)\<rfloor> = a div b"
    by (rule floor_divide_of_int_eq)
  have "(of_int a :: rat) = of_int (a div b * b + a mod b)" by simp
  also have "\<dots> = of_int (a div b) * of_int b + of_int (a mod b)"
    by (simp only: of_int_add of_int_mult)
  finally have "(of_int a / of_int b :: rat) = of_int (a div b) + of_int (a mod b) / of_int b"
    using assms by (simp add: field_simps)
  then have r: "(of_int a / of_int b :: rat) - of_int (a div b) = of_int (a mod b) / of_int b"
    by simp
  have lt: "(of_int (a mod b) / of_int b < (1 / 2 :: rat)) = (2 * (a mod b) < b)"
  proof -
    have "(of_int (a mod b) / of_int b < (1 / 2 :: rat)) = ((of_int (2 * (a mod b)) :: rat) < of_int b)"
      using assms by (simp add: field_simps)
    then show ?thesis by (simp only: of_int_less_iff)
  qed
  have gt: "((1 / 2 :: rat) < of_int (a mod b) / of_int b) = (b < 2 * (a mod b))"
  proof -
    have "((1 / 2 :: rat) < of_int (a mod b) / of_int b) = ((of_int b :: rat) < of_int (2 * (a mod b)))"
      using assms by (simp add: field_simps)
    then show ?thesis by (simp only: of_int_less_iff)
  qed
  show ?thesis
    unfolding round_half_even_def Let_def fl r lt gt by simp
qed


lemma example_request_ms:
  "float_mul 1000 (request_time example_request) = 6949617174986097 / 562949953421312"
proof -
  have "float_mul 1000 (request_time example_request)
      = of_int (round_half_even (of_int 889550998398220375 / of_int 128)) * pow2 (- 49)"
    unfolding float_mul_def example_request_def
    by (subst to_double_pos [where e = "- 49"]) (simp_all add: pow2_def)
  also have "\<dots> = 6949617174986097 / 562949953421312"
    by (subst round_half_even_frac) (simp_all add: pow2_def)
  finally show ?thesis .
qed

lemma nearest_double_12_345:
  "to_double (12345 / 1000) = 6949617174986097 / 562949953421312"
proof -
  have "to_double (12345 / 1000)
      = of_int (round_half_even (of_int 173740429374652416 / of_int 25)) * pow2 (- 49)"
    by (subst to_double_pos [where e = "- 49"]) (simp_all add: pow2_def)
  also have "\<dots> = 6949617174986097 / 562949953421312"
    by (subst round_half_even_frac) (simp_all add: pow2_def)
  finally show ?thesis .
qed

lemma format_2f_12_345: "format_2f (6949617174986097 / 562949953421312) = ''12.35''"
proof -
  have "round_half_even (\<bar>6949617174986097 / 562949953421312\<bar> * 100)
      = round_half_even (of_int 173740429374652425 / of_int 140737488355328)"
    by simp
  also have "\<dots> = 1235"
    by (subst round_half_even_frac) simp_all
  finally show ?thesis
    by (simp add: format_2f_def Let_def show_nat.simps digit_char_def)
qed

lemma format_d_examples:
  "format_d 200 = ''200''" "format_d 404 = ''404''" "format_d 500 = ''500''"
  by (simp_all add: format_d_def show_nat.simps digit_char_def)

lemma example_request_line:
  "access_log_message 200 ''GET /x HTTP/1.1'' (6949617174986097 / 562949953421312) cid
     = ''200 GET /x HTTP/1.1 12.35ms {CID '' @ format_s cid @ ''}''"
  by (simp add: access_log_message_def format_2f_12_345 format_d_examples)


lemma is_digit_digit_char: "is_digit (digit_char d)"
proof -
  have "d mod 10 < length ''0123456789''" by simp
  then have "''0123456789'' ! (d mod 10) \<in> set ''0123456789''" by (rule nth_mem)
  then show ?thesis by (simp only: is_digit_def digit_char_def)
qed

lemma digit_of_digit_char: "digit_of (digit_char d) = d mod 10"
proof -
  define k where "k = d mod 10"
  have "k < 10" by (simp add: k_def)
  then have "k = 0 \<or> k = 1 \<or> k = 2 \<or> k = 3 \<or> k = 4 \<or> k = 5 \<or> k = 6 \<or> k = 7 \<or> k = 8 \<or> k = 9"
    by presburger
  then have "digit_of (''0123456789'' ! k) = k"
    by (elim disjE) (simp_all add: digit_of_def upt_rec)
  then show ?thesis by (simp add: digit_char_def k_def)
qed

lemma digits_value_snoc: "digits_value (ds @ [c]) = 10 * digits_value ds + digit_of c"
  by (simp add: digits_value_def)

lemma show_nat_digits: "list_all is_digit (show_nat n) \<and> show_nat n \<noteq> []"
proof (induction n rule: show_nat.induct)
  case (1 n)
  show ?case
  proof (cases "n < 10")
    case True
    then show ?thesis by (subst (1 2) show_nat.simps) (simp add: is_digit_digit_char)
  next
    case False
    then show ?thesis
      using 1 by (subst (1 2) show_nat.simps) (simp add: is_digit_digit_char)
  qed
qed

lemma digits_value_show_nat: "digits_value (show_nat n) = n"
proof (induction n rule: show_nat.induct)
  case (1 n)
  show ?case
  proof (cases "n < 10")
    case True
    then show ?thesis
      by (subst show_nat.simps) (simp add: digits_value_def digit_of_digit_char)
  next
    case False
    then have "digits_value (show_nat (n div 10)) = n div 10" using 1 by simp
    then show ?thesis
      using False by (subst show_nat.simps) (simp add: digits_value_snoc digit_of_digit_char)
  qed
qed

lemma round_half_even_near: "\<bar>of_int (round_half_even q) - q\<bar> \<le> 1 / 2"
proof -
  have "of_int \<lfloor>q\<rfloor> \<le> q" "q < of_int \<lfloor>q\<rfloor> + 1" by linarith+
  then show ?thesis
    by (auto simp add: round_half_even_def Let_def abs_le_iff)
qed

lemma round_half_even_nonneg: "0 \<le> q \<Longrightarrow> 0 \<le> round_half_even q"
  by (auto simp add: round_half_even_def Let_def)

lemma format_2f_shape:
  "\<exists>ip d1 d2.
     format_2f x = (if x < 0 then ''-'' else []) @ ip @ ''.'' @ [d1, d2]
     \<and> ip \<noteq> [] \<and> list_all is_digit (ip @ [d1, d2])
     \<and> \<bar>of_nat (digits_value (ip @ [d1, d2])) / 100 - \<bar>x\<bar>\<bar> \<le> 1 / 200"
proof -
  define c where "c = nat (round_half_even (\<bar>x\<bar> * 100))"
  define ip where "ip = show_nat (c div 100)"
  define d1 where "d1 = digit_char (c div 10 mod 10)"
  define d2 where "d2 = digit_char (c mod 10)"
  have f: "format_2f x = (if x < 0 then ''-'' else []) @ ip @ ''.'' @ [d1, d2]"
    by (simp add: format_2f_def c_def ip_def d1_def d2_def Let_def)
  have dg: "ip \<noteq> [] \<and> list_all is_digit (ip @ [d1, d2])"
    using show_nat_digits [of "c div 100"] by (simp add: ip_def d1_def d2_def is_digit_digit_char)
  have "digits_value (ip @ [d1, d2]) = 10 * (10 * (c div 100) + c div 10 mod 10) + c mod 10"
    using digits_value_snoc [of "ip @ [d1]" d2] digits_value_snoc [of ip d1]
    by (simp add: ip_def d1_def d2_def digits_value_show_nat digit_of_digit_char)
  also have "\<dots> = c"
  proof -
    have "c div 100 = c div 10 div 10"
      using div_mult2_eq [of c 10 10] by simp
    moreover have "10 * (c div 10 div 10) + c div 10 mod 10 = c div 10"
      by (rule mult_div_mod_eq)
    ultimately show ?thesis by simp
  qed
  finally have v: "digits_value (ip @ [d1, d2]) = c" .
  have "(of_nat c :: rat) = of_int (round_half_even (\<bar>x\<bar> * 100))"
    using round_half_even_nonneg [of "\<bar>x\<bar> * 100"] by (simp add: c_def)
  then have "\<bar>(of_nat c :: rat) - \<bar>x\<bar> * 100\<bar> \<le> 1 / 2"
    using round_half_even_near [of "\<bar>x\<bar> * 100"] by simp
  then have "\<bar>(of_nat c :: rat) / 100 - \<bar>x\<bar>\<bar> \<le> 1 / 200"
    by (simp add: abs_le_iff field_simps)
  then show ?thesis using f dg v by auto
qed


section \<open>Claims about the access log\<close>

text \<open>
  C5. The access log is written at info for a status below 400, at warning for
  a status from 400 to 499 and at error for a status of 500 or more.
\<close>
theorem severity_by_status_band:
  "(get_status handler < 400 \<longrightarrow> fst (correlation_id_logger handler) = INFO)
   \<and> (400 \<le> get_status handler \<and> get_status handler < 500 \<longrightarrow>
        fst (correlation_id_logger handler) = WARNING)
   \<and> (500 \<le> get_status handler \<longrightarrow> fst (correlation_id_logger handler) = ERROR)"
  by (simp add: correlation_id_logger_def Let_def)

text \<open>
  C5, at status 200, 404 and 500.
\<close>
theorem severity_by_status_band_witness:
  "get_status example_request < 400
   \<and> fst (correlation_id_logger example_request) = INFO
   \<and> 400 \<le> get_status (example_request\<lparr>get_status := 404\<rparr>)
   \<and> get_status (example_request\<lparr>get_status := 404\<rparr>) < 500
   \<and> fst (correlation_id_logger (example_request\<lparr>get_status := 404\<rparr>)) = WARNING
   \<and> 500 \<le> get_status (example_request\<lparr>get_status := 500\<rparr>)
   \<and> fst (correlation_id_logger (example_request\<lparr>get_status := 500\<rparr>)) = ERROR"
proof -
  have a: "get_status example_request < 400"
    by (simp add: example_request_def)
  have b: "400 \<le> get_status (example_request\<lparr>get_status := 404\<rparr>)"
    "get_status (example_request\<lparr>get_status := 404\<rparr>) < 500"
    by simp_all
  have c: "500 \<le> get_status (example_request\<lparr>get_status := 500\<rparr>)"
    by simp
  show ?thesis
    using severity_by_status_band [of example_request]
      severity_by_status_band [of "example_request\<lparr>get_status := 404\<rparr>"]
      severity_by_status_band [of "example_request\<lparr>get_status := 500\<rparr>"]
      a b c by blast
qed

text \<open>
  C6. The identifier written to the access log is the value held by the
  provider when the handler has one; with no provider on the handler it is the
  inbound header \<^verbatim>\<open>Correlation-ID\<close>; with neither, the line ends in the marker
  \<^verbatim>\<open>{CID None}\<close>.
\<close>
theorem identifier_fallback_chain:
  "(mixin handler = Some p \<and> provider_correlation_id p = Some c \<longrightarrow>
      snd (correlation_id_logger handler)
        = access_log_message (get_status handler) (request_summary handler)
            (float_mul 1000 (request_time handler)) (Some c))
   \<and> (mixin handler = None \<longrightarrow>
      snd (correlation_id_logger handler)
        = access_log_message (get_status handler) (request_summary handler)
            (float_mul 1000 (request_time handler))
            (headers_get (logged_request_headers handler) ''Correlation-ID'' None))
   \<and> (mixin handler = None \<and> logged_request_headers handler (fold_case ''Correlation-ID'') = None
      \<longrightarrow>
      snd (correlation_id_logger handler)
        = format_d (get_status handler) @ '' '' @ request_summary handler @ '' '' @
          format_2f (float_mul 1000 (request_time handler)) @ ''ms {CID None}'')"
  by (simp add: correlation_id_logger_def logged_correlation_id_def getattr_correlation_id_def
      access_log_message_def format_s_def headers_get_def Let_def)


text \<open>
  C6, at a handler with a provider, at one with the header only, at one with
  neither.
\<close>
theorem identifier_fallback_chain_witness:
  "mixin example_request
     = Some \<lparr>provider_header_name = ''Correlation-ID'', provider_correlation_id = Some ''abc''\<rparr>
   \<and> snd (correlation_id_logger example_request) = ''200 GET /x HTTP/1.1 12.35ms {CID abc}''
   \<and> mixin (example_request\<lparr>mixin := None,
        logged_request_headers := headers_set Map.empty ''Correlation-ID'' ''deadbeef''\<rparr>) = None
   \<and> snd (correlation_id_logger (example_request\<lparr>mixin := None,
        logged_request_headers := headers_set Map.empty ''Correlation-ID'' ''deadbeef''\<rparr>))
       = ''200 GET /x HTTP/1.1 12.35ms {CID deadbeef}''
   \<and> logged_request_headers (example_request\<lparr>mixin := None\<rparr>) (fold_case ''Correlation-ID'') = None
   \<and> snd (correlation_id_logger (example_request\<lparr>mixin := None\<rparr>))
       = ''200 GET /x HTTP/1.1 12.35ms {CID None}''"
proof -
  let ?p = "\<lparr>provider_header_name = ''Correlation-ID'', provider_correlation_id = Some ''abc''\<rparr>"
  let ?h2 = "example_request\<lparr>mixin := None,
        logged_request_headers := headers_set Map.empty ''Correlation-ID'' ''deadbeef''\<rparr>"
  let ?h3 = "example_request\<lparr>mixin := None\<rparr>"
  have m1: "mixin example_request = Some ?p \<and> provider_correlation_id ?p = Some ''abc''"
    by (simp add: example_request_def)
  have m2: "mixin ?h2 = None" by simp
  have m3: "mixin ?h3 = None \<and> logged_request_headers ?h3 (fold_case ''Correlation-ID'') = None"
    by (simp add: example_request_def)
  have f: "get_status example_request = 200"
    "request_summary example_request = ''GET /x HTTP/1.1''"
    by (simp_all add: example_request_def)
  have w1: "snd (correlation_id_logger example_request) = ''200 GET /x HTTP/1.1 12.35ms {CID abc}''"
    using identifier_fallback_chain [of example_request ?p "''abc''"] m1
    by (simp add: f example_request_ms example_request_line format_s_def)
  have w2: "snd (correlation_id_logger ?h2) = ''200 GET /x HTTP/1.1 12.35ms {CID deadbeef}''"
    using identifier_fallback_chain [of ?h2] m2
    by (simp add: f example_request_ms example_request_line format_s_def headers_get_set_same)
  have "snd (correlation_id_logger ?h3)
      = format_d (get_status ?h3) @ '' '' @ request_summary ?h3 @ '' '' @
        format_2f (float_mul 1000 (request_time ?h3)) @ ''ms {CID None}''"
    using identifier_fallback_chain [of ?h3] m3 by blast
  then have w3: "snd (correlation_id_logger ?h3) = ''200 GET /x HTTP/1.1 12.35ms {CID None}''"
    by (simp add: f example_request_ms format_2f_12_345 format_d_examples)
  show ?thesis
    using m1 m2 m3 w1 w2 w3 by simp
qed

text \<open>
  C10. The fallback to the inbound header is taken whenever the attribute
  \<^verbatim>\<open>correlation_id\<close> evaluates to \<^verbatim>\<open>None\<close>: with no provider, and with a provider
  whose identifier is \<^verbatim>\<open>None\<close>, whatever header name \<open>n\<close> it is configured with.
  The header read is always \<^verbatim>\<open>Correlation-ID\<close>; when that is absent too the line
  ends in \<^verbatim>\<open>{CID None}\<close>.
\<close>
theorem fallback_reads_literal_header:
  "(mixin handler = None
      \<or> mixin handler = Some \<lparr>provider_header_name = n, provider_correlation_id = None\<rparr>
     \<longrightarrow> snd (correlation_id_logger handler)
        = access_log_message (get_status handler) (request_summary handler)
            (float_mul 1000 (request_time handler))
            (headers_get (logged_request_headers handler) ''Correlation-ID'' None))
   \<and> ((mixin handler = None
        \<or> mixin handler = Some \<lparr>provider_header_name = n, provider_correlation_id = None\<rparr>)
       \<and> headers_get (logged_request_headers handler) ''Correlation-ID'' None = None
     \<longrightarrow> snd (correlation_id_logger handler)
        = format_d (get_status handler) @ '' '' @ request_summary handler @ '' '' @
          format_2f (float_mul 1000 (request_time handler)) @ ''ms {CID None}'')"
  by (auto simp add: correlation_id_logger_def logged_correlation_id_def
      getattr_correlation_id_def access_log_message_def format_s_def Let_def)

text \<open>
  C10, at a provider configured with \<^verbatim>\<open>X-Request-ID\<close> whose identifier is \<^verbatim>\<open>None\<close>:
  the request header \<^verbatim>\<open>X-Request-ID\<close> is not read, the header \<^verbatim>\<open>Correlation-ID\<close> is.
\<close>
theorem fallback_reads_literal_header_witness:
  "headers_get (headers_set Map.empty ''X-Request-ID'' ''abc'') ''Correlation-ID'' None = None
   \<and> snd (correlation_id_logger (example_request
        \<lparr>logged_request_headers := headers_set Map.empty ''X-Request-ID'' ''abc'',
         mixin := Some \<lparr>provider_header_name = ''X-Request-ID'',
                        provider_correlation_id = None\<rparr>\<rparr>))
       = ''200 GET /x HTTP/1.1 12.35ms {CID None}''
   \<and> snd (correlation_id_logger (example_request
        \<lparr>logged_request_headers := headers_set Map.empty ''Correlation-ID'' ''deadbeef'',
         mixin := Some \<lparr>provider_header_name = ''X-Request-ID'',
                        provider_correlation_id = None\<rparr>\<rparr>))
       = ''200 GET /x HTTP/1.1 12.35ms {CID deadbeef}''"
proof -
  let ?p = "\<lparr>provider_header_name = ''X-Request-ID'', provider_correlation_id = None\<rparr>"
  let ?h1 = "example_request
        \<lparr>logged_request_headers := headers_set Map.empty ''X-Request-ID'' ''abc'',
         mixin := Some ?p\<rparr>"
  let ?h2 = "example_request
        \<lparr>logged_request_headers := headers_set Map.empty ''Correlation-ID'' ''deadbeef'',
         mixin := Some ?p\<rparr>"
  have a: "headers_get (headers_set Map.empty ''X-Request-ID'' ''abc'') ''Correlation-ID'' None = None"
    by (simp add: headers_get_def headers_set_def fold_case_def lower_char_def)
  have f: "get_status example_request = 200"
    "request_summary example_request = ''GET /x HTTP/1.1''"
    by (simp_all add: example_request_def)
  have "snd (correlation_id_logger ?h1)
      = format_d (get_status ?h1) @ '' '' @ request_summary ?h1 @ '' '' @
        format_2f (float_mul 1000 (request_time ?h1)) @ ''ms {CID None}''"
    by (rule fallback_reads_literal_header
          [of ?h1 "''X-Request-ID''", THEN conjunct2, rule_format]) (simp add: a)
  then have w1: "snd (correlation_id_logger ?h1) = ''200 GET /x HTTP/1.1 12.35ms {CID None}''"
    by (simp add: f example_request_ms format_2f_12_345 format_d_examples)
  have "snd (correlation_id_logger ?h2)
      = access_log_message (get_status ?h2) (request_summary ?h2)
          (float_mul 1000 (request_time ?h2))
          (headers_get (logged_request_headers ?h2) ''Correlation-ID'' None)"
    by (rule fallback_reads_literal_header
          [of ?h2 "''X-Request-ID''", THEN conjunct1, rule_format]) simp
  then have w2: "snd (correlation_id_logger ?h2) = ''200 GET /x HTTP/1.1 12.35ms {CID deadbeef}''"
    by (simp add: f example_request_ms example_request_line format_s_def headers_get_set_same)
  show ?thesis
    using a w1 w2 by simp
qed

lemma example_request_logged:
  "snd (correlation_id_logger example_request) = ''200 GET /x HTTP/1.1 12.35ms {CID abc}''"
  by (simp add: correlation_id_logger_def logged_correlation_id_def getattr_correlation_id_def
      Let_def example_request_ms example_request_line format_s_def)
    (simp add: example_request_def example_request_line format_s_def)

text \<open>
  C4, as stated, fails at its own example. The duration 12.345 ms is the double
  nearest to 12.345 (what \<^verbatim>\<open>1000.0 * 0.012345\<close> gives), which lies above 12.345,
  so \<^verbatim>\<open>%.2f\<close> prints \<^verbatim>\<open>12.35\<close>, not \<^verbatim>\<open>12.34\<close>.
\<close>
theorem access_log_example_counterexample:
  "float_mul 1000 (request_time example_request) = to_double (12345 / 1000)
   \<and> snd (correlation_id_logger example_request) = ''200 GET /x HTTP/1.1 12.35ms {CID abc}''
   \<and> snd (correlation_id_logger example_request) \<noteq> ''200 GET /x HTTP/1.1 12.34ms {CID abc}''"
  by (simp only: example_request_ms nearest_double_12_345 example_request_logged) simp

text \<open>
  C4, amended. For every completed request the access log gets one message of
  the form \<^verbatim>\<open><status> <summary> <duration>ms {CID <id-or-None>}\<close>, where the
  duration is the request time in milliseconds printed with at least one digit
  before the point and exactly two after it, a minus sign first when it is
  negative, and the number printed is within half a hundredth of the duration
  (\<^verbatim>\<open>%.2f\<close> rounds to the nearest, it does not truncate); status 200, summary
  \<^verbatim>\<open>GET /x HTTP/1.1\<close>, duration 12.345 ms as a double and identifier \<^verbatim>\<open>abc\<close> give
  \<^verbatim>\<open>200 GET /x HTTP/1.1 12.35ms {CID abc}\<close>.
\<close>
theorem access_log_line_format:
  "(\<exists>ip d1 d2.
      snd (correlation_id_logger handler)
        = format_d (get_status handler) @ '' '' @ request_summary handler @ '' '' @
          (if float_mul 1000 (request_time handler) < 0 then ''-'' else []) @
          ip @ ''.'' @ [d1, d2] @
          ''ms {CID '' @ format_s (logged_correlation_id handler) @ ''}''
      \<and> ip \<noteq> [] \<and> list_all is_digit (ip @ [d1, d2])
      \<and> \<bar>of_nat (digits_value (ip @ [d1, d2])) / 100 - \<bar>float_mul 1000 (request_time handler)\<bar>\<bar>
          \<le> 1 / 200)
   \<and> snd (correlation_id_logger example_request) = ''200 GET /x HTTP/1.1 12.35ms {CID abc}''"
proof -
  obtain ip d1 d2 where
    "format_2f (float_mul 1000 (request_time handler))
       = (if float_mul 1000 (request_time handler) < 0 then ''-'' else []) @ ip @ ''.'' @ [d1, d2]"
    "ip \<noteq> []" "list_all is_digit (ip @ [d1, d2])"
    "\<bar>of_nat (digits_value (ip @ [d1, d2])) / 100 - \<bar>float_mul 1000 (request_time handler)\<bar>\<bar>
         \<le> 1 / 200"
    using format_2f_shape [of "float_mul 1000 (request_time handler)"] by blast
  then have "\<exists>ip d1 d2.
      snd (correlation_id_logger handler)
        = format_d (get_status handler) @ '' '' @ request_summary handler @ '' '' @
          (if float_mul 1000 (request_time handler) < 0 then ''-'' else []) @
          ip @ ''.'' @ [d1, d2] @
          ''ms {CID '' @ format_s (logged_correlation_id handler) @ ''}''
      \<and> ip \<noteq> [] \<and> list_all is_digit (ip @ [d1, d2])
      \<and> \<bar>of_nat (digits_value (ip @ [d1, d2])) / 100 - \<bar>float_mul 1000 (request_time handler)\<bar>\<bar>
          \<le> 1 / 200"
    by (intro exI [of _ ip] exI [of _ d1] exI [of _ d2])
      (simp add: correlation_id_logger_def access_log_message_def Let_def)
  then show ?thesis
    using example_request_logged by blast
qed

end
